theory Spec2Isabelle
  imports Main "HOL-Library.Sublist"
begin

section \<open>Requests, responses and script values\<close>

text \<open>
  The service worker sees a request through its method and its URL, and a response through
  its status and its body. \<open>response.ok\<close> is the platform's test for a status in the range
  200 to 299. URLs are taken in the normalised form in which the cache store compares them,
  so the string \<open>'/'\<close> handed to \<open>cache.match\<close> and a request for the site root are the
  same key.
\<close>

record request =
  "method" :: string
  url :: string

record response =
  status :: nat
  body :: string

definition ok :: "response \<Rightarrow> bool" where
  "ok r \<longleftrightarrow> 200 \<le> status r \<and> status r \<le> 299"

text \<open>
  What a rejected promise carries: \<open>fetch\<close> rejects when the network fails, the cache store
  rejects a call it does not accept with a TypeError.
\<close>

datatype failure = NetworkFailure string | TypeError string

text \<open>
  The script values that the handlers pass around without awaiting them. A promise is an
  object, so it is truthy whatever it settles to; \<open>a || b\<close> yields \<open>a\<close> when \<open>a\<close> is
  truthy and \<open>b\<close> otherwise; an async function that returns a promise is fulfilled with
  what that promise is fulfilled with.
\<close>

datatype jsval = Undefined | Object response | Promise jsval

fun truthy :: "jsval \<Rightarrow> bool" where
  "truthy Undefined = False"
| "truthy (Object r) = True"
| "truthy (Promise v) = True"

definition js_or :: "jsval \<Rightarrow> jsval \<Rightarrow> jsval" where
  "js_or a b = (if truthy a then a else b)"

fun fulfilled_with :: "jsval \<Rightarrow> response option" where
  "fulfilled_with Undefined = None"
| "fulfilled_with (Object r) = Some r"
| "fulfilled_with (Promise v) = fulfilled_with v"

definition of_match :: "response option \<Rightarrow> jsval" where
  "of_match m = (case m of None \<Rightarrow> Undefined | Some r \<Rightarrow> Object r)"

section \<open>The worker's state and its host\<close>

text \<open>
  The cache storage maps a partition name to a partition, and a partition maps a URL to the
  response last stored for it. The worker's state is the storage, the trace of the host
  calls made so far, and the background refreshes that have been started and not yet
  finished. \<open>EvUnhandled\<close> records a rejected promise that no code awaits or catches.
\<close>

type_synonym partition = "string \<rightharpoonup> response"
type_synonym cache_storage = "string \<rightharpoonup> partition"

datatype event =
    EvOpen string
  | EvMatch string request
  | EvFetch request
  | EvPut string request response
  | EvUnhandled failure
  | EvLog failure

record worker =
  storage :: cache_storage
  trace :: "event list"
  detached :: "(request \<times> string) list"

text \<open>
  The host decides what a network call yields. Handlers of other requests run interleaved
  with this one on the same event loop; \<open>concurrent\<close> lists the entries (partition name,
  URL, response) that they store while a handler is suspended on its network call.
\<close>

record host =
  network :: "request \<Rightarrow> failure + response"
  concurrent :: "(string \<times> string \<times> response) list"

definition CACHE_NAME :: string where
  "CACHE_NAME = ''radlett-lodge-v1''"

definition API_CACHE_NAME :: string where
  "API_CACHE_NAME = ''radlett-lodge-api-v1''"

definition STATIC_CACHE_NAME :: string where
  "STATIC_CACHE_NAME = ''radlett-lodge-static-v1''"

definition urlsToCache :: "string list" where
  "urlsToCache =
     [''/'',
      ''/src/main.tsx'',
      ''/src/index.css'',
      ''https://fonts.googleapis.com/css2?family=Open+Sans:wght@400;500;600&family=Playfair+Display:wght@400;600;700&display=swap'']"

definition API_ENDPOINTS :: "string list" where
  "API_ENDPOINTS =
     [''/api/documents'', ''/api/members'', ''/api/minutes'', ''/api/events'', ''/api/news'']"

subsection \<open>The host's cache and network calls\<close>

text \<open>
  \<open>caches.open\<close> returns the partition of that name and creates it empty when there is
  none. The handle it returns is the name.
\<close>

definition opened :: "string \<Rightarrow> cache_storage \<Rightarrow> cache_storage" where
  "opened name cs = (case cs name of None \<Rightarrow> cs(name \<mapsto> Map.empty) | Some p \<Rightarrow> cs)"

definition caches_open :: "string \<Rightarrow> worker \<Rightarrow> string \<times> worker" where
  "caches_open name w =
     (name, w\<lparr>storage := opened name (storage w), trace := trace w @ [EvOpen name]\<rparr>)"

text \<open>
  Storing and looking up an entry of a partition through its handle. A partition stays in
  the storage once it is opened: the worker deletes only partitions of other names.
\<close>

definition store :: "string \<Rightarrow> string \<Rightarrow> response \<Rightarrow> cache_storage \<Rightarrow> cache_storage" where
  "store name u r cs = (case cs name of None \<Rightarrow> cs | Some p \<Rightarrow> cs(name \<mapsto> p(u \<mapsto> r)))"

definition lookup :: "string \<Rightarrow> string \<Rightarrow> cache_storage \<Rightarrow> response option" where
  "lookup name u cs = (case cs name of None \<Rightarrow> None | Some p \<Rightarrow> p u)"

text \<open>
  \<open>cache.match\<close> compares URLs and never matches a request whose method is not GET.
\<close>

definition cache_match :: "string \<Rightarrow> request \<Rightarrow> worker \<Rightarrow> response option \<times> worker" where
  "cache_match cache rq w =
     (if method rq = ''GET'' then lookup cache (url rq) (storage w) else None,
      w\<lparr>trace := trace w @ [EvMatch cache rq]\<rparr>)"

text \<open>
  \<open>cache.put\<close> rejects with a TypeError, and stores nothing, when the method of the
  request is not GET and when the status of the response is 206. (It also rejects a URL
  that is not http or https and a response with \<open>Vary: *\<close>; requests and responses here
  carry neither.) The handlers do not await \<open>cache.put\<close>, so its rejection is handled by
  nobody; an entry that it does store is taken to be in the partition from the call on.
\<close>

definition put_rejection :: "request \<Rightarrow> response \<Rightarrow> failure option" where
  "put_rejection rq r =
     (if method rq \<noteq> ''GET'' then Some (TypeError ''Request method is unsupported'')
      else if status r = 206 then Some (TypeError ''Partial response is unsupported'')
      else None)"

definition cache_put :: "string \<Rightarrow> request \<Rightarrow> response \<Rightarrow> worker \<Rightarrow> worker" where
  "cache_put cache rq r w =
     (case put_rejection rq r of
        None \<Rightarrow>
          w\<lparr>storage := store cache (url rq) r (storage w),
            trace := trace w @ [EvPut cache rq r]\<rparr>
      | Some e \<Rightarrow> w\<lparr>trace := trace w @ [EvPut cache rq r, EvUnhandled e]\<rparr>)"

definition land :: "(string \<times> string \<times> response) list \<Rightarrow> cache_storage \<Rightarrow> cache_storage" where
  "land ws cs = fold (\<lambda>(name, u, r). store name u r) ws cs"

text \<open>
  An awaited \<open>fetch\<close>: the call is issued, the handler is suspended while the entries of
  the concurrent handlers land, and it resumes with what the network yields.
\<close>

definition fetch :: "host \<Rightarrow> request \<Rightarrow> worker \<Rightarrow> (failure + response) \<times> worker" where
  "fetch h rq w =
     (network h rq,
      w\<lparr>storage := land (concurrent h) (storage w), trace := trace w @ [EvFetch rq]\<rparr>)"

section \<open>Classification of a request path\<close>

text \<open>\<open>s.includes(t)\<close>: \<open>t\<close> occurs in \<open>s\<close> as a contiguous run of characters.\<close>

definition str_includes :: "string \<Rightarrow> string \<Rightarrow> bool" where
  "str_includes s t = sublist t s"

definition isApiRequest :: "string \<Rightarrow> bool" where
  "isApiRequest pathname \<longleftrightarrow>
     list_ex (\<lambda>endpoint. str_includes pathname endpoint) API_ENDPOINTS \<or>
     str_includes pathname ''/functions/v1/''"

definition static_extensions :: "string list" where
  "static_extensions =
     [''js'', ''css'', ''png'', ''jpg'', ''jpeg'', ''gif'', ''svg'', ''woff'', ''woff2'',
      ''ttf'', ''eot'', ''ico'']"

text \<open>
  The pattern \<open>/\.(js|css|...|ico)$/\<close>: the path ends with a dot followed by one of the
  extensions.
\<close>

definition isStaticAsset :: "string \<Rightarrow> bool" where
  "isStaticAsset pathname \<longleftrightarrow>
     list_ex (\<lambda>ext. suffix (''.'' @ ext) pathname) static_extensions"

text \<open>The fetch listener's chain of tests, which picks the handler.\<close>

datatype category = Api | StaticAsset | Navigation

definition classify :: "string \<Rightarrow> category" where
  "classify pathname =
     (if isApiRequest pathname then Api
      else if isStaticAsset pathname then StaticAsset
      else Navigation)"

section \<open>The three strategies\<close>

subsection \<open>Background refresh\<close>

text \<open>
  \<open>updateCacheInBackground\<close> is called without being awaited. The call runs up to its
  \<open>await\<close>, which issues the network call, and the rest runs detached once the network
  call has settled: an ok response is stored, a failure is logged and goes no further.
\<close>

definition updateCacheInBackground_start :: "request \<Rightarrow> string \<Rightarrow> worker \<Rightarrow> worker" where
  "updateCacheInBackground_start request cache w =
     w\<lparr>trace := trace w @ [EvFetch request], detached := detached w @ [(request, cache)]\<rparr>"

definition updateCacheInBackground_finish :: "host \<Rightarrow> request \<Rightarrow> string \<Rightarrow> worker \<Rightarrow> worker" where
  "updateCacheInBackground_finish h request cache w =
     (case network h request of
        Inr networkResponse \<Rightarrow>
          if ok networkResponse then cache_put cache request networkResponse w else w
      | Inl error \<Rightarrow> w\<lparr>trace := trace w @ [EvLog error]\<rparr>)"

text \<open>The event loop finishing the oldest refresh that is still detached.\<close>

definition run_detached :: "host \<Rightarrow> worker \<Rightarrow> worker" where
  "run_detached h w =
     (case detached w of
        [] \<Rightarrow> w
      | (request, cache) # rest \<Rightarrow>
          updateCacheInBackground_finish h request cache (w\<lparr>detached := rest\<rparr>))"

subsection \<open>API requests\<close>

text \<open>The \<open>try\<close> block of \<open>handleApiRequest\<close> and its \<open>catch\<close>.\<close>

definition handleApiRequest_network ::
  "host \<Rightarrow> request \<Rightarrow> string \<Rightarrow> worker \<Rightarrow> (failure + response) \<times> worker" where
  "handleApiRequest_network h request cache w =
     (case fetch h request w of
        (Inr networkResponse, w1) \<Rightarrow>
          (Inr networkResponse,
           if method request = ''GET'' \<and> ok networkResponse
           then cache_put cache request networkResponse w1 else w1)
      | (Inl error, w1) \<Rightarrow>
          (case cache_match cache request w1 of
             (Some cachedResponse, w2) \<Rightarrow> (Inr cachedResponse, w2)
           | (None, w2) \<Rightarrow> (Inl error, w2)))"

definition handleApiRequest :: "host \<Rightarrow> request \<Rightarrow> worker \<Rightarrow> (failure + response) \<times> worker" where
  "handleApiRequest h request w =
     (let (cache, w1) = caches_open API_CACHE_NAME w;
          (cachedResponse, w2) =
             (if method request = ''GET'' then cache_match cache request w1 else (None, w1))
      in case cachedResponse of
           Some found \<Rightarrow> (Inr found, updateCacheInBackground_start request cache w2)
         | None \<Rightarrow> handleApiRequest_network h request cache w2)"

subsection \<open>Static assets\<close>

definition handleStaticAsset :: "host \<Rightarrow> request \<Rightarrow> worker \<Rightarrow> (failure + response) \<times> worker" where
  "handleStaticAsset h request w =
     (let (cache, w1) = caches_open STATIC_CACHE_NAME w;
          (cachedResponse, w2) = cache_match cache request w1
      in case cachedResponse of
           Some found \<Rightarrow> (Inr found, w2)
         | None \<Rightarrow>
             (case fetch h request w2 of
                (Inl error, w3) \<Rightarrow> (Inl error, w3)
              | (Inr networkResponse, w3) \<Rightarrow>
                  (Inr networkResponse,
                   if ok networkResponse then cache_put cache request networkResponse w3
                   else w3)))"

subsection \<open>Navigation\<close>

definition offline_response :: response where
  "offline_response = \<lparr>status = 503, body = ''Offline''\<rparr>"

text \<open>
  In the \<open>catch\<close> block the promise that \<open>cache.match('/')\<close> returns is the left operand
  of \<open>||\<close> as it is, not awaited. \<open>None\<close> is the handler's promise fulfilled with
  \<open>undefined\<close>.
\<close>

definition handleNavigation ::
  "host \<Rightarrow> request \<Rightarrow> worker \<Rightarrow> (failure + response option) \<times> worker" where
  "handleNavigation h request w =
     (case fetch h request w of
        (Inr networkResponse, w1) \<Rightarrow> (Inr (Some networkResponse), w1)
      | (Inl error, w1) \<Rightarrow>
          (let (cache, w2) = caches_open STATIC_CACHE_NAME w1;
               (found, w3) = cache_match cache \<lparr>method = ''GET'', url = ''/''\<rparr> w2
           in (Inr (fulfilled_with (js_or (Promise (of_match found)) (Object offline_response))),
               w3)))"

subsection \<open>The fetch listener\<close>

text \<open>
  The listener reads the path of the request's URL (\<open>pathname\<close> stands for the platform's
  URL parser) and hands the request to the handler of its category.
\<close>

definition fetch_listener ::
  "(string \<Rightarrow> string) \<Rightarrow> host \<Rightarrow> request \<Rightarrow> worker \<Rightarrow> (failure + response option) \<times> worker" where
  "fetch_listener pathname h request w =
     (case classify (pathname (url request)) of
        Api \<Rightarrow> (case handleApiRequest h request w of (res, w') \<Rightarrow> (map_sum id Some res, w'))
      | StaticAsset \<Rightarrow>
          (case handleStaticAsset h request w of (res, w') \<Rightarrow> (map_sum id Some res, w'))
      | Navigation \<Rightarrow> handleNavigation h request w)"

section \<open>Installation\<close>

text \<open>
  \<open>cache.addAll\<close> fetches every URL of the list with a GET request. It rejects with a
  TypeError when a fetch fails, when a response is not ok and when its status is 206, and
  then stores nothing; otherwise it stores every response under its URL. It never looks at
  what the partition holds already.
\<close>

fun collect :: "(failure + response) list \<Rightarrow> failure + response list" where
  "collect [] = Inr []"
| "collect (Inl e # rest) = Inl (TypeError ''Request failed'')"
| "collect (Inr r # rest) =
     (if ok r \<and> status r \<noteq> 206
      then (case collect rest of Inl e \<Rightarrow> Inl e | Inr rs \<Rightarrow> Inr (r # rs))
      else Inl (TypeError ''Request failed''))"

definition cache_addAll ::
  "host \<Rightarrow> string \<Rightarrow> string list \<Rightarrow> worker \<Rightarrow> (failure + unit) \<times> worker" where
  "cache_addAll h cache urls w =
     (let requests = map (\<lambda>u. \<lparr>method = ''GET'', url = u\<rparr>) urls;
          w1 = w\<lparr>trace := trace w @ map EvFetch requests\<rparr>
      in case collect (map (network h) requests) of
           Inl e \<Rightarrow> (Inl e, w1)
         | Inr responses \<Rightarrow>
             (Inr (), w1\<lparr>storage := land (map (\<lambda>(u, r). (cache, u, r)) (zip urls responses))
                                        (storage w1)\<rparr>))"

text \<open>
  The install listener waits for both: the static partition opened and filled from the
  manifest, and the api partition opened.
\<close>

definition install :: "host \<Rightarrow> worker \<Rightarrow> (failure + unit) \<times> worker" where
  "install h w =
     (let (static, w1) = caches_open STATIC_CACHE_NAME w;
          (api, w2) = caches_open API_CACHE_NAME w1
      in cache_addAll h static urlsToCache w2)"

text \<open>The requests that an install sends to the network.\<close>

definition manifest_requests :: "request list" where
  "manifest_requests = map (\<lambda>u. \<lparr>method = ''GET'', url = u\<rparr>) urlsToCache"

section \<open>Activation\<close>

text \<open>
  The activate listener deletes every partition whose name is not one of the three names
  of this version, and leaves these three as they are.
\<close>

definition activate :: "worker \<Rightarrow> worker" where
  "activate w =
     w\<lparr>storage := storage w |` {CACHE_NAME, API_CACHE_NAME, STATIC_CACHE_NAME}\<rparr>"

section \<open>Reading a trace\<close>

text \<open>The number of network calls that a trace records.\<close>

fun is_fetch :: "event \<Rightarrow> bool" where
  "is_fetch (EvFetch rq) = True"
| "is_fetch e = False"

definition fetch_count :: "event list \<Rightarrow> nat" where
  "fetch_count es = length (filter is_fetch es)"

fun is_match :: "event \<Rightarrow> bool" where
  "is_match (EvMatch cache rq) = True"
| "is_match e = False"



text \<open>The events that a handler adds to the trace it starts from.\<close>

definition added :: "worker \<Rightarrow> worker \<Rightarrow> event list" where
  "added w w' = drop (length (trace w)) (trace w')"

section \<open>Sample requests, hosts and workers\<close>

definition fresh_worker :: worker where
  "fresh_worker = \<lparr>storage = Map.empty, trace = [], detached = []\<rparr>"

definition no_network :: host where
  "no_network =
     \<lparr>network = (\<lambda>rq. Inl (NetworkFailure ''Failed to fetch'')), concurrent = []\<rparr>"

definition page_of :: "request \<Rightarrow> response" where
  "page_of rq = \<lparr>status = 200, body = url rq\<rparr>"

definition online :: host where
  "online = \<lparr>network = (\<lambda>rq. Inr (page_of rq)), concurrent = []\<rparr>"

definition not_found :: response where
  "not_found = \<lparr>status = 404, body = ''Not Found''\<rparr>"

definition missing :: host where
  "missing = \<lparr>network = (\<lambda>rq. Inr not_found), concurrent = []\<rparr>"

definition dashboard_request :: request where
  "dashboard_request = \<lparr>method = ''GET'', url = ''/dashboard''\<rparr>"

definition members_request :: request where
  "members_request = \<lparr>method = ''GET'', url = ''/api/members''\<rparr>"

definition post_members :: request where
  "post_members = \<lparr>method = ''POST'', url = ''/api/members''\<rparr>"

definition main_js_request :: request where
  "main_js_request = \<lparr>method = ''GET'', url = ''/main.js''\<rparr>"

definition post_asset :: request where
  "post_asset = \<lparr>method = ''POST'', url = ''/uploads/report.css''\<rparr>"

definition stale_members :: response where
  "stale_members = \<lparr>status = 200, body = ''[]''\<rparr>"

definition warm_worker :: worker where
  "warm_worker =
     \<lparr>storage = [API_CACHE_NAME \<mapsto> [''/api/members'' \<mapsto> stale_members]],
      trace = [], detached = []\<rparr>"



definition post_main_js :: request where
  "post_main_js = \<lparr>method = ''POST'', url = ''/main.js''\<rparr>"

definition script :: response where
  "script = \<lparr>status = 200, body = ''console.log(1)''\<rparr>"

definition asset_worker :: worker where
  "asset_worker =
     \<lparr>storage = [STATIC_CACHE_NAME \<mapsto> [''/main.js'' \<mapsto> script]], trace = [], detached = []\<rparr>"


section \<open>Facts about the storage\<close>

lemma land_Nil [simp]: "land [] cs = cs"
  by (simp add: land_def)

lemma land_Cons [simp]: "land ((name, u, r) # ws) cs = land ws (store name u r cs)"
  by (simp add: land_def)

lemma store_present: "(store name u r cs n = None) = (cs n = None)"
  by (simp add: store_def split: option.splits)

lemma land_present: "(land ws cs n = None) = (cs n = None)"
proof (induction ws arbitrary: cs)
  case Nil
  show ?case by simp
next
  case (Cons a ws)
  obtain name u r where a: "a = (name, u, r)"
    by (cases a)
  show ?case
    unfolding a land_Cons Cons.IH by (rule store_present)
qed

lemma opened_present [simp]: "opened name cs name \<noteq> None"
  by (simp add: opened_def split: option.splits)

lemma opened_again: "cs name \<noteq> None \<Longrightarrow> opened name cs = cs"
  by (auto simp: opened_def)


lemma lookup_opened [simp]: "lookup name u (opened name cs) = lookup name u cs"
  by (simp add: lookup_def opened_def split: option.splits)

lemma lookup_present: "lookup name u cs = Some r \<Longrightarrow> cs name \<noteq> None"
  by (auto simp: lookup_def split: option.splits)

section \<open>The handlers, path by path\<close>


lemma cache_put_rejected:
  assumes "method rq \<noteq> ''GET'' \<or> status r = 206"
  shows "storage (cache_put cache rq r w) = storage w"
    and "\<exists>e. trace (cache_put cache rq r w) = trace w @ [EvPut cache rq r, EvUnhandled e]"
  using assms by (auto simp: cache_put_def put_rejection_def)

lemma cache_put_other_fields [simp]: "detached (cache_put cache rq r w) = detached w"
  by (simp add: cache_put_def split: option.splits)



lemma api_hit:
  assumes "method rq = ''GET''"
    and "lookup API_CACHE_NAME (url rq) (storage w) = Some c"
  shows "handleApiRequest h rq w =
     (Inr c,
      w\<lparr>trace := trace w @ [EvOpen API_CACHE_NAME, EvMatch API_CACHE_NAME rq, EvFetch rq],
        detached := detached w @ [(rq, API_CACHE_NAME)]\<rparr>)"
proof -
  from assms(2) have "storage w API_CACHE_NAME \<noteq> None"
    by (rule lookup_present)
  then have "opened API_CACHE_NAME (storage w) = storage w"
    by (rule opened_again)
  with assms show ?thesis
    by (simp add: handleApiRequest_def caches_open_def cache_match_def
        updateCacheInBackground_start_def)
qed


lemma api_other_method:
  assumes "method rq \<noteq> ''GET''"
  shows "handleApiRequest h rq w =
     handleApiRequest_network h rq API_CACHE_NAME
       (w\<lparr>storage := opened API_CACHE_NAME (storage w),
          trace := trace w @ [EvOpen API_CACHE_NAME]\<rparr>)"
  using assms by (simp add: handleApiRequest_def caches_open_def)

lemma api_network_ok:
  assumes "network h rq = Inr r"
  shows "handleApiRequest_network h rq cache w =
     (Inr r,
      if method rq = ''GET'' \<and> ok r
      then cache_put cache rq r
             (w\<lparr>storage := land (concurrent h) (storage w), trace := trace w @ [EvFetch rq]\<rparr>)
      else w\<lparr>storage := land (concurrent h) (storage w), trace := trace w @ [EvFetch rq]\<rparr>)"
  using assms by (simp add: handleApiRequest_network_def fetch_def)

lemma api_network_fail:
  assumes "network h rq = Inl e"
  shows "handleApiRequest_network h rq cache w =
     ((case (if method rq = ''GET'' then lookup cache (url rq) (land (concurrent h) (storage w))
             else None) of
         Some c \<Rightarrow> Inr c | None \<Rightarrow> Inl e),
      w\<lparr>storage := land (concurrent h) (storage w),
        trace := trace w @ [EvFetch rq, EvMatch cache rq]\<rparr>)"
  using assms
  by (simp add: handleApiRequest_network_def fetch_def cache_match_def split: option.splits)


lemma static_miss:
  assumes "method rq \<noteq> ''GET'' \<or> lookup STATIC_CACHE_NAME (url rq) (storage w) = None"
  shows "handleStaticAsset h rq w =
     (case network h rq of
        Inl e \<Rightarrow>
          (Inl e,
           w\<lparr>storage := land (concurrent h) (opened STATIC_CACHE_NAME (storage w)),
             trace := trace w @ [EvOpen STATIC_CACHE_NAME, EvMatch STATIC_CACHE_NAME rq,
                                 EvFetch rq]\<rparr>)
      | Inr r \<Rightarrow>
          (Inr r,
           if ok r
           then cache_put STATIC_CACHE_NAME rq r
                  (w\<lparr>storage := land (concurrent h) (opened STATIC_CACHE_NAME (storage w)),
                     trace := trace w @ [EvOpen STATIC_CACHE_NAME,
                                         EvMatch STATIC_CACHE_NAME rq, EvFetch rq]\<rparr>)
           else w\<lparr>storage := land (concurrent h) (opened STATIC_CACHE_NAME (storage w)),
                  trace := trace w @ [EvOpen STATIC_CACHE_NAME, EvMatch STATIC_CACHE_NAME rq,
                                      EvFetch rq]\<rparr>))"
  using assms
  by (auto simp add: handleStaticAsset_def caches_open_def cache_match_def fetch_def
      split: sum.splits)


lemma navigation_offline:
  assumes "network h rq = Inl e"
  shows "handleNavigation h rq w =
     (Inr (lookup STATIC_CACHE_NAME ''/'' (land (concurrent h) (storage w))),
      w\<lparr>storage := opened STATIC_CACHE_NAME (land (concurrent h) (storage w)),
        trace := trace w @ [EvFetch rq, EvOpen STATIC_CACHE_NAME,
                            EvMatch STATIC_CACHE_NAME \<lparr>method = ''GET'', url = ''/''\<rparr>]\<rparr>)"
  using assms
  by (simp add: handleNavigation_def fetch_def caches_open_def cache_match_def of_match_def
      js_or_def split: option.splits)

section \<open>Facts about classification\<close>

lemma list_ex_sublist: "list_ex (\<lambda>x. sublist x p) xs \<longleftrightarrow> (\<exists>x\<in>set xs. \<exists>a b. p = a @ x @ b)"
  by (simp add: list_ex_iff sublist_def)

text \<open>Where the fetch listener sends two of the sample requests.\<close>

lemma dashboard_is_navigation: "classify (url dashboard_request) = Navigation"
  by (simp add: classify_def isApiRequest_def isStaticAsset_def API_ENDPOINTS_def
      static_extensions_def str_includes_def sublist_Cons_right suffix_to_prefix
      dashboard_request_def)

lemma post_asset_is_static: "classify (url post_asset) = StaticAsset"
  by (simp add: classify_def isApiRequest_def isStaticAsset_def API_ENDPOINTS_def
      static_extensions_def str_includes_def sublist_Cons_right suffix_to_prefix
      post_asset_def)

section \<open>The order of cache reads and network calls\<close>











section \<open>Storing the same entries again\<close>

lemma store_overwrite: "store n u r (store n u r' cs) = store n u r cs"
  by (simp add: store_def split: option.splits)

lemma store_commute:
  "n \<noteq> n' \<or> u \<noteq> u' \<Longrightarrow>
     store n u r (store n' u' r' cs) = store n' u' r' (store n u r cs)"
  by (auto simp: store_def fun_upd_twist split: option.splits)

lemma store_land_store: "store n u r (land ws (store n u r' cs)) = store n u r (land ws cs)"
proof (induction ws arbitrary: cs)
  case Nil
  show ?case by (simp add: store_overwrite)
next
  case (Cons x ws)
  obtain n' u' r'' where x: "x = (n', u', r'')"
    by (cases x)
  show ?case
  proof (cases "n = n' \<and> u = u'")
    case True
    then show ?thesis
      by (simp add: x store_overwrite)
  next
    case False
    then have "store n' u' r'' (store n u r' cs) = store n u r' (store n' u' r'' cs)"
      by (intro store_commute) auto
    then show ?thesis
      by (simp add: x Cons.IH)
  qed
qed

lemma land_snoc: "land (ws @ [(n, u, r)]) cs = store n u r (land ws cs)"
  by (simp add: land_def)

lemma land_twice: "land ws (land ws cs) = land ws cs"
proof (induction ws rule: rev_induct)
  case Nil
  show ?case by simp
next
  case (snoc x ws)
  obtain n u r where x: "x = (n, u, r)"
    by (cases x)
  show ?case
    by (simp add: x land_snoc store_land_store snoc.IH)
qed

lemma opened_land: "opened name (land ws cs) = land ws cs" if "cs name \<noteq> None"
  using that by (simp add: opened_again land_present)

lemma fetch_count_fetches: "fetch_count (map EvFetch rqs) = length rqs"
  by (induction rqs) (simp_all add: fetch_count_def)

lemma install_unfold:
  "install h w =
     (case collect (map (network h) manifest_requests) of
        Inl e \<Rightarrow>
          (Inl e,
           w\<lparr>storage := opened API_CACHE_NAME (opened STATIC_CACHE_NAME (storage w)),
             trace := trace w @ [EvOpen STATIC_CACHE_NAME, EvOpen API_CACHE_NAME]
                        @ map EvFetch manifest_requests\<rparr>)
      | Inr responses \<Rightarrow>
          (Inr (),
           w\<lparr>storage := land (map (\<lambda>(u, r). (STATIC_CACHE_NAME, u, r))
                                 (zip urlsToCache responses))
                            (opened API_CACHE_NAME (opened STATIC_CACHE_NAME (storage w))),
             trace := trace w @ [EvOpen STATIC_CACHE_NAME, EvOpen API_CACHE_NAME]
                        @ map EvFetch manifest_requests\<rparr>))"
  by (simp add: install_def caches_open_def cache_addAll_def manifest_requests_def
      split: sum.splits)

lemma install_trace:
  "trace (snd (install h w)) =
     trace w @ [EvOpen STATIC_CACHE_NAME, EvOpen API_CACHE_NAME] @ map EvFetch manifest_requests"
  by (simp add: install_unfold split: sum.splits)

lemma opened_other_present: "cs name \<noteq> None \<Longrightarrow> opened other cs name \<noteq> None"
  by (auto simp: opened_def split: option.splits)

section \<open>The claims\<close>

text \<open>
  C1. The claim: when the network fetch of a navigation request fails and the static
  partition holds no entry for \<open>'/'\<close>, \<open>handleNavigation\<close> returns a response with
  status 503 and body \<open>Offline\<close>. The code does not: with the network down and a fresh
  storage the handler's promise is fulfilled with \<open>undefined\<close>. The left operand of
  \<open>||\<close> is the promise of \<open>cache.match('/')\<close>, which is truthy, so the offline
  response is never built.
\<close>

theorem handleNavigation_offline_undefined:
  "classify (url dashboard_request) = Navigation
    \<and> handleNavigation no_network dashboard_request fresh_worker =
        (Inr None,
         \<lparr>storage = [STATIC_CACHE_NAME \<mapsto> Map.empty],
          trace = [EvFetch dashboard_request, EvOpen STATIC_CACHE_NAME,
                   EvMatch STATIC_CACHE_NAME \<lparr>method = ''GET'', url = ''/''\<rparr>],
          detached = []\<rparr>)"
  by (simp add: dashboard_is_navigation navigation_offline no_network_def fresh_worker_def
      lookup_def opened_def)

text \<open>
  C2. For a GET request whose URL the api partition holds, \<open>handleApiRequest\<close> returns
  the stored response; it returns the same whatever the host's network yields, with the
  storage as it was; the network call of the refresh for the same request has been issued
  after the cache lookup, and the refresh is left detached.
\<close>

theorem api_cache_hit_served_without_waiting:
  assumes "method rq = ''GET''"
    and "lookup API_CACHE_NAME (url rq) (storage w) = Some c"
  shows "fst (handleApiRequest h rq w) = Inr c
    \<and> handleApiRequest h' rq w = handleApiRequest h rq w
    \<and> storage (snd (handleApiRequest h rq w)) = storage w
    \<and> added w (snd (handleApiRequest h rq w)) =
         [EvOpen API_CACHE_NAME, EvMatch API_CACHE_NAME rq, EvFetch rq]
    \<and> detached (snd (handleApiRequest h rq w)) = detached w @ [(rq, API_CACHE_NAME)]"
  by (simp add: api_hit [OF assms] added_def)

theorem api_cache_hit_served_without_waiting_witness:
  "method members_request = ''GET''
    \<and> lookup API_CACHE_NAME (url members_request) (storage warm_worker) = Some stale_members
    \<and> fst (handleApiRequest online members_request warm_worker) = Inr stale_members
    \<and> handleApiRequest no_network members_request warm_worker =
        handleApiRequest online members_request warm_worker
    \<and> added warm_worker (snd (handleApiRequest online members_request warm_worker)) =
         [EvOpen API_CACHE_NAME, EvMatch API_CACHE_NAME members_request,
          EvFetch members_request]"
proof -
  have get: "method members_request = ''GET''"
    by (simp add: members_request_def)
  have hit: "lookup API_CACHE_NAME (url members_request) (storage warm_worker) = Some stale_members"
    by (simp add: members_request_def warm_worker_def lookup_def)
  show ?thesis
    using get hit
      api_cache_hit_served_without_waiting [OF get hit, of online no_network]
    by simp
qed




text \<open>
  C4, as claimed: a second install with the manifest unchanged issues no network call.
  With the network up and a fresh storage, the second install issues four more, one for
  every URL of the manifest, although the first has put them all into the static partition.
\<close>

theorem second_install_fetches_again:
  "fetch_count (trace (snd (install online (snd (install online fresh_worker))))) =
     fetch_count (trace (snd (install online fresh_worker))) + 4"
  by (simp add: install_trace fetch_count_def manifest_requests_def urlsToCache_def
      fresh_worker_def)

text \<open>
  C4, as the code has it. After an install that succeeded, a second install against the
  same network succeeds as well and leaves the whole storage as the first left it: on the
  stored entries installing is idempotent. It is no re-open without network calls:
  \<open>cache.addAll\<close> checks nothing before it fetches, so each install issues one network
  call for every URL of the manifest.
\<close>

theorem install_twice:
  assumes "fst (install h w) = Inr ()"
  shows "fst (install h (snd (install h w))) = Inr ()
    \<and> storage (snd (install h (snd (install h w)))) = storage (snd (install h w))
    \<and> added w (snd (install h w)) =
         [EvOpen STATIC_CACHE_NAME, EvOpen API_CACHE_NAME] @ map EvFetch manifest_requests
    \<and> added (snd (install h w)) (snd (install h (snd (install h w)))) =
         [EvOpen STATIC_CACHE_NAME, EvOpen API_CACHE_NAME] @ map EvFetch manifest_requests
    \<and> fetch_count (map EvFetch manifest_requests) = length urlsToCache"
proof -
  from assms obtain responses where ok: "collect (map (network h) manifest_requests) = Inr responses"
    by (auto simp: install_unfold split: sum.splits)
  let ?ws = "map (\<lambda>(u, r). (STATIC_CACHE_NAME, u, r)) (zip urlsToCache responses)"
  let ?cs = "opened API_CACHE_NAME (opened STATIC_CACHE_NAME (storage w))"
  have first: "storage (snd (install h w)) = land ?ws ?cs"
    by (simp add: install_unfold ok)
  have static: "?cs STATIC_CACHE_NAME \<noteq> None"
    by (rule opened_other_present) simp
  have api: "?cs API_CACHE_NAME \<noteq> None"
    by simp
  have "opened STATIC_CACHE_NAME (land ?ws ?cs) = land ?ws ?cs"
    using static by (rule opened_land)
  moreover have "opened API_CACHE_NAME (land ?ws ?cs) = land ?ws ?cs"
    using api by (rule opened_land)
  ultimately have second: "storage (snd (install h (snd (install h w)))) = land ?ws (land ?ws ?cs)"
    by (simp add: install_unfold [of h "snd (install h w)"] ok first)
  have a: "fst (install h (snd (install h w))) = Inr ()"
    by (simp add: install_unfold [of h "snd (install h w)"] ok)
  have b: "storage (snd (install h (snd (install h w)))) = storage (snd (install h w))"
    by (simp add: first second land_twice)
  have c: "added w (snd (install h w)) =
         [EvOpen STATIC_CACHE_NAME, EvOpen API_CACHE_NAME] @ map EvFetch manifest_requests"
    by (simp add: added_def install_trace)
  have d: "added (snd (install h w)) (snd (install h (snd (install h w)))) =
         [EvOpen STATIC_CACHE_NAME, EvOpen API_CACHE_NAME] @ map EvFetch manifest_requests"
    by (simp add: added_def install_trace)
  have e: "fetch_count (map EvFetch manifest_requests) = length urlsToCache"
    unfolding fetch_count_fetches by (simp add: manifest_requests_def)
  from a b c d e show ?thesis
    by (intro conjI)
qed

theorem install_twice_witness:
  "fst (install online fresh_worker) = Inr ()
    \<and> fst (install online (snd (install online fresh_worker))) = Inr ()
    \<and> storage (snd (install online (snd (install online fresh_worker)))) =
        storage (snd (install online fresh_worker))
    \<and> lookup STATIC_CACHE_NAME ''/'' (storage (snd (install online fresh_worker))) =
        Some \<lparr>status = 200, body = ''/''\<rparr>
    \<and> fetch_count (added (snd (install online fresh_worker))
                      (snd (install online (snd (install online fresh_worker))))) = 4"
proof -
  have all_ok: "collect (map (network online) manifest_requests) =
      Inr (map page_of manifest_requests)"
    by (simp add: manifest_requests_def urlsToCache_def online_def ok_def page_of_def)
  have first: "fst (install online fresh_worker) = Inr ()"
    by (simp add: install_unfold all_ok)
  note claim = install_twice [OF first]
  have stored: "lookup STATIC_CACHE_NAME ''/'' (storage (snd (install online fresh_worker))) =
        Some \<lparr>status = 200, body = ''/''\<rparr>"
    by (simp add: install_unfold all_ok)
       (simp add: manifest_requests_def urlsToCache_def fresh_worker_def page_of_def opened_def
          store_def lookup_def STATIC_CACHE_NAME_def API_CACHE_NAME_def)
  have count: "fetch_count (added (snd (install online fresh_worker))
                      (snd (install online (snd (install online fresh_worker))))) = 4"
    unfolding claim [THEN conjunct2, THEN conjunct2, THEN conjunct2, THEN conjunct1]
    by (simp add: fetch_count_def manifest_requests_def urlsToCache_def)
  from first claim [THEN conjunct1] claim [THEN conjunct2, THEN conjunct1] stored count
  show ?thesis
    by (intro conjI)
qed

text \<open>
  C5. A path that contains one of the configured endpoint strings, or the segment
  \<open>/functions/v1/\<close>, is classified \<open>api\<close>, whatever it ends with; and every path gets
  the one category that the two tests decide.
\<close>

theorem api_classification_takes_precedence:
  assumes "(\<exists>endpoint\<in>set API_ENDPOINTS. \<exists>a b. pathname = a @ endpoint @ b)
           \<or> (\<exists>a b. pathname = a @ ''/functions/v1/'' @ b)"
  shows "classify pathname = Api
    \<and> (classify p = Api \<longleftrightarrow> isApiRequest p)
    \<and> (classify p = StaticAsset \<longleftrightarrow> \<not> isApiRequest p \<and> isStaticAsset p)
    \<and> (classify p = Navigation \<longleftrightarrow> \<not> isApiRequest p \<and> \<not> isStaticAsset p)"
proof -
  from assms have "isApiRequest pathname"
    by (simp add: isApiRequest_def str_includes_def list_ex_sublist) (simp add: sublist_def)
  then show ?thesis
    by (simp add: classify_def)
qed

theorem api_classification_takes_precedence_witness:
  "((\<exists>endpoint\<in>set API_ENDPOINTS. \<exists>a b. ''/api/members/photo.png'' = a @ endpoint @ b)
      \<or> (\<exists>a b. ''/api/members/photo.png'' = a @ ''/functions/v1/'' @ b))
    \<and> isStaticAsset ''/api/members/photo.png''
    \<and> classify ''/api/members/photo.png'' = Api
    \<and> classify ''/assets/photo.png'' = StaticAsset
    \<and> classify ''/dashboard'' = Navigation"
proof -
  have "''/api/members/photo.png'' = [] @ ''/api/members'' @ ''/photo.png''"
    by simp
  moreover have "''/api/members'' \<in> set API_ENDPOINTS"
    by (simp add: API_ENDPOINTS_def)
  ultimately have contains:
    "(\<exists>endpoint\<in>set API_ENDPOINTS. \<exists>a b. ''/api/members/photo.png'' = a @ endpoint @ b)
      \<or> (\<exists>a b. ''/api/members/photo.png'' = a @ ''/functions/v1/'' @ b)"
    by blast
  have static: "isStaticAsset ''/api/members/photo.png''"
    by (simp add: isStaticAsset_def static_extensions_def suffix_def)
  have a: "isStaticAsset ''/assets/photo.png''"
    by (simp add: isStaticAsset_def static_extensions_def suffix_def)
  have b: "\<not> isApiRequest ''/assets/photo.png''"
    by (simp add: isApiRequest_def API_ENDPOINTS_def str_includes_def sublist_Cons_right)
  have c: "\<not> isStaticAsset ''/dashboard''"
    by (simp add: isStaticAsset_def static_extensions_def suffix_to_prefix)
  have d: "\<not> isApiRequest ''/dashboard''"
    by (simp add: isApiRequest_def API_ENDPOINTS_def str_includes_def sublist_Cons_right)
  note claim = api_classification_takes_precedence [OF contains]
  from claim [of "''/assets/photo.png''"] a b have e: "classify ''/assets/photo.png'' = StaticAsset"
    by simp
  from claim [of "''/dashboard''"] c d have f: "classify ''/dashboard'' = Navigation"
    by simp
  from contains static claim [THEN conjunct1] e f show ?thesis
    by (intro conjI)
qed

text \<open>
  C6. The claim: only GET requests are written to a cache partition; a request that is not
  a GET bypasses caching and goes straight to the network. \<open>handleApiRequest\<close> guards
  both its lookup and its \<open>cache.put\<close> with the method; \<open>handleStaticAsset\<close> guards
  neither. A POST request for a path with a static extension is looked up in the static
  partition before the network call and, the response being ok, handed to \<open>cache.put\<close>,
  which rejects it with a TypeError that nothing handles. A POST request to the api
  handler makes the network call and nothing else.
\<close>

theorem non_get_static_request_uses_cache:
  "method post_asset \<noteq> ''GET''
    \<and> classify (url post_asset) = StaticAsset
    \<and> handleStaticAsset online post_asset fresh_worker =
        (Inr (page_of post_asset),
         \<lparr>storage = [STATIC_CACHE_NAME \<mapsto> Map.empty],
          trace = [EvOpen STATIC_CACHE_NAME, EvMatch STATIC_CACHE_NAME post_asset,
                   EvFetch post_asset, EvPut STATIC_CACHE_NAME post_asset (page_of post_asset),
                   EvUnhandled (TypeError ''Request method is unsupported'')],
          detached = []\<rparr>)
    \<and> trace (snd (handleApiRequest online post_members fresh_worker)) =
        [EvOpen API_CACHE_NAME, EvFetch post_members]"
proof -
  have a: "method post_asset \<noteq> ''GET''"
    by (simp add: post_asset_def)
  have b: "handleStaticAsset online post_asset fresh_worker =
        (Inr (page_of post_asset),
         \<lparr>storage = [STATIC_CACHE_NAME \<mapsto> Map.empty],
          trace = [EvOpen STATIC_CACHE_NAME, EvMatch STATIC_CACHE_NAME post_asset,
                   EvFetch post_asset, EvPut STATIC_CACHE_NAME post_asset (page_of post_asset),
                   EvUnhandled (TypeError ''Request method is unsupported'')],
          detached = []\<rparr>)"
    by (simp add: static_miss a)
       (simp add: post_asset_def online_def fresh_worker_def page_of_def ok_def cache_put_def
          put_rejection_def opened_def)
  have post: "method post_members \<noteq> ''GET''"
    by (simp add: post_members_def)
  have answer: "network online post_members = Inr (page_of post_members)"
    by (simp add: online_def)
  have c: "trace (snd (handleApiRequest online post_members fresh_worker)) =
        [EvOpen API_CACHE_NAME, EvFetch post_members]"
    by (simp add: api_other_method [OF post] api_network_ok [OF answer] post fresh_worker_def)
  from a post_asset_is_static b c show ?thesis
    by (intro conjI)
qed

text \<open>
  C7, as claimed: no cache lookup at any point of the path of a request that is not a GET.
  When the network call of a POST request fails, the \<open>catch\<close> block, which all methods
  share, looks the request up in the api partition.
\<close>

theorem non_get_api_failure_looks_up_cache:
  "filter is_match (trace (snd (handleApiRequest no_network post_members fresh_worker))) =
     [EvMatch API_CACHE_NAME post_members]"
  by (simp add: api_other_method api_network_fail post_members_def no_network_def
      fresh_worker_def)

text \<open>
  C7, as the code has it. For a request that is not a GET, \<open>handleApiRequest\<close> calls
  the network without any cache lookup before it, and the caller gets what the network
  yields, its response or its failure. After a failure the handler does look the request
  up once, in the \<open>catch\<close> block; the lookup never matches a request that is not a GET,
  so nothing is ever served from the cache on this path.
\<close>

theorem non_get_api_request_network_only:
  assumes "method rq \<noteq> ''GET''"
  shows "fst (handleApiRequest h rq w) = network h rq
    \<and> added w (snd (handleApiRequest h rq w)) =
         [EvOpen API_CACHE_NAME, EvFetch rq]
         @ (case network h rq of Inl error \<Rightarrow> [EvMatch API_CACHE_NAME rq] | Inr answer \<Rightarrow> [])"
proof (cases "network h rq")
  case (Inl e)
  with assms show ?thesis
    by (simp add: api_other_method api_network_fail added_def)
next
  case (Inr r)
  with assms show ?thesis
    by (simp add: api_other_method api_network_ok added_def)
qed

theorem non_get_api_request_network_only_witness:
  "method post_members \<noteq> ''GET''
    \<and> fst (handleApiRequest no_network post_members warm_worker) =
        Inl (NetworkFailure ''Failed to fetch'')
    \<and> fst (handleApiRequest online post_members warm_worker) = Inr (page_of post_members)
    \<and> added warm_worker (snd (handleApiRequest online post_members warm_worker)) =
        [EvOpen API_CACHE_NAME, EvFetch post_members]"
proof -
  have post: "method post_members \<noteq> ''GET''"
    by (simp add: post_members_def)
  note claim = non_get_api_request_network_only [OF post]
  have a: "fst (handleApiRequest no_network post_members warm_worker) =
        Inl (NetworkFailure ''Failed to fetch'')"
    by (simp add: claim [THEN conjunct1]) (simp add: no_network_def)
  have b: "fst (handleApiRequest online post_members warm_worker) = Inr (page_of post_members)"
    by (simp add: claim [THEN conjunct1]) (simp add: online_def)
  have c: "added warm_worker (snd (handleApiRequest online post_members warm_worker)) =
        [EvOpen API_CACHE_NAME, EvFetch post_members]"
    by (simp add: claim [THEN conjunct2]) (simp add: online_def)
  from post a b c show ?thesis
    by (intro conjI)
qed

text \<open>
  C8. For a request that misses the static partition (the partition does not hold its
  URL, or its method is not GET, which no entry matches) and whose network call fails,
  \<open>handleStaticAsset\<close> fails with the failure of the network, as it is. It puts nothing
  into the cache: after the lookup and the network call the handler makes no further call,
  and the storage holds what it held when the handler was suspended.
\<close>

theorem static_miss_failure_propagates:
  assumes "method rq \<noteq> ''GET'' \<or> lookup STATIC_CACHE_NAME (url rq) (storage w) = None"
    and "network h rq = Inl e"
  shows "handleStaticAsset h rq w =
     (Inl e,
      w\<lparr>storage := land (concurrent h) (opened STATIC_CACHE_NAME (storage w)),
        trace := trace w @ [EvOpen STATIC_CACHE_NAME, EvMatch STATIC_CACHE_NAME rq,
                            EvFetch rq]\<rparr>)"
  using assms by (simp add: static_miss)

theorem static_miss_failure_propagates_witness:
  "lookup STATIC_CACHE_NAME (url main_js_request) (storage fresh_worker) = None
    \<and> network no_network main_js_request = Inl (NetworkFailure ''Failed to fetch'')
    \<and> handleStaticAsset no_network main_js_request fresh_worker =
        (Inl (NetworkFailure ''Failed to fetch''),
         \<lparr>storage = [STATIC_CACHE_NAME \<mapsto> Map.empty],
          trace = [EvOpen STATIC_CACHE_NAME, EvMatch STATIC_CACHE_NAME main_js_request,
                   EvFetch main_js_request],
          detached = []\<rparr>)
    \<and> method post_main_js \<noteq> ''GET''
    \<and> lookup STATIC_CACHE_NAME (url post_main_js) (storage asset_worker) = Some script
    \<and> handleStaticAsset no_network post_main_js asset_worker =
        (Inl (NetworkFailure ''Failed to fetch''),
         \<lparr>storage = storage asset_worker,
          trace = [EvOpen STATIC_CACHE_NAME, EvMatch STATIC_CACHE_NAME post_main_js,
                   EvFetch post_main_js],
          detached = []\<rparr>)"
proof -
  have miss: "method main_js_request \<noteq> ''GET''
      \<or> lookup STATIC_CACHE_NAME (url main_js_request) (storage fresh_worker) = None"
    by (simp add: fresh_worker_def lookup_def)
  have down: "network no_network main_js_request = Inl (NetworkFailure ''Failed to fetch'')"
    by (simp add: no_network_def)
  have a: "handleStaticAsset no_network main_js_request fresh_worker =
        (Inl (NetworkFailure ''Failed to fetch''),
         \<lparr>storage = [STATIC_CACHE_NAME \<mapsto> Map.empty],
          trace = [EvOpen STATIC_CACHE_NAME, EvMatch STATIC_CACHE_NAME main_js_request,
                   EvFetch main_js_request],
          detached = []\<rparr>)"
    by (simp add: static_miss_failure_propagates [OF miss down])
       (simp add: no_network_def fresh_worker_def opened_def)
  have post: "method post_main_js \<noteq> ''GET''
      \<or> lookup STATIC_CACHE_NAME (url post_main_js) (storage asset_worker) = None"
    by (simp add: post_main_js_def)
  have held: "lookup STATIC_CACHE_NAME (url post_main_js) (storage asset_worker) = Some script"
    by (simp add: post_main_js_def asset_worker_def lookup_def)
  have down': "network no_network post_main_js = Inl (NetworkFailure ''Failed to fetch'')"
    by (simp add: no_network_def)
  have b: "handleStaticAsset no_network post_main_js asset_worker =
        (Inl (NetworkFailure ''Failed to fetch''),
         \<lparr>storage = storage asset_worker,
          trace = [EvOpen STATIC_CACHE_NAME, EvMatch STATIC_CACHE_NAME post_main_js,
                   EvFetch post_main_js],
          detached = []\<rparr>)"
    by (simp add: static_miss_failure_propagates [OF post down'])
       (simp add: no_network_def asset_worker_def opened_def)
  have absent: "lookup STATIC_CACHE_NAME (url main_js_request) (storage fresh_worker) = None"
    by (simp add: fresh_worker_def lookup_def)
  have other: "method post_main_js \<noteq> ''GET''"
    by (simp add: post_main_js_def)
  from absent down a other held b show ?thesis
    by (intro conjI)
qed




text \<open>
  C10. For a request that misses the static partition (the partition does not hold its
  URL, or its method is not GET, which no entry matches) and whose network call answers
  with a response that is not ok, \<open>handleStaticAsset\<close> returns that response as it is
  and puts nothing into the cache. The background refresh has the same guard: when its
  network call answers with a response that is not ok, finishing the refresh changes
  nothing, so the entry that the api partition holds stays.
\<close>

theorem only_ok_responses_are_cached:
  assumes "method rq \<noteq> ''GET'' \<or> lookup STATIC_CACHE_NAME (url rq) (storage w) = None"
    and "network h rq = Inr r"
    and "\<not> ok r"
  shows "handleStaticAsset h rq w =
           (Inr r,
            w\<lparr>storage := land (concurrent h) (opened STATIC_CACHE_NAME (storage w)),
              trace := trace w @ [EvOpen STATIC_CACHE_NAME, EvMatch STATIC_CACHE_NAME rq,
                                  EvFetch rq]\<rparr>)
    \<and> updateCacheInBackground_finish h rq cache w' = w'
    \<and> storage (run_detached h (w'\<lparr>detached := (rq, cache) # rest\<rparr>)) = storage w'"
  using assms
  by (simp add: static_miss updateCacheInBackground_finish_def run_detached_def)

theorem only_ok_responses_are_cached_witness:
  "lookup STATIC_CACHE_NAME (url main_js_request) (storage fresh_worker) = None
    \<and> network missing main_js_request = Inr not_found
    \<and> \<not> ok not_found
    \<and> fst (handleStaticAsset missing main_js_request fresh_worker) = Inr not_found
    \<and> lookup STATIC_CACHE_NAME (url main_js_request)
          (storage (snd (handleStaticAsset missing main_js_request fresh_worker))) = None
    \<and> method post_main_js \<noteq> ''GET''
    \<and> fst (handleStaticAsset missing post_main_js asset_worker) = Inr not_found
    \<and> storage (snd (handleStaticAsset missing post_main_js asset_worker)) =
        storage asset_worker
    \<and> updateCacheInBackground_finish missing members_request API_CACHE_NAME warm_worker =
        warm_worker
    \<and> lookup API_CACHE_NAME ''/api/members''
          (storage (run_detached missing
             (warm_worker\<lparr>detached := [(members_request, API_CACHE_NAME)]\<rparr>))) =
        Some stale_members"
proof -
  have miss: "method main_js_request \<noteq> ''GET''
      \<or> lookup STATIC_CACHE_NAME (url main_js_request) (storage fresh_worker) = None"
    by (simp add: fresh_worker_def lookup_def)
  have answer: "network missing main_js_request = Inr not_found"
    by (simp add: missing_def)
  have bad: "\<not> ok not_found"
    by (simp add: ok_def not_found_def)
  note static = only_ok_responses_are_cached [OF miss answer bad, THEN conjunct1]
  have a: "fst (handleStaticAsset missing main_js_request fresh_worker) = Inr not_found"
    by (simp add: static)
  have b: "lookup STATIC_CACHE_NAME (url main_js_request)
          (storage (snd (handleStaticAsset missing main_js_request fresh_worker))) = None"
    by (simp add: static) (simp add: missing_def fresh_worker_def lookup_def opened_def)
  have post: "method post_main_js \<noteq> ''GET''
      \<or> lookup STATIC_CACHE_NAME (url post_main_js) (storage asset_worker) = None"
    by (simp add: post_main_js_def)
  have answer2: "network missing post_main_js = Inr not_found"
    by (simp add: missing_def)
  note static2 = only_ok_responses_are_cached [OF post answer2 bad, THEN conjunct1]
  have a2: "fst (handleStaticAsset missing post_main_js asset_worker) = Inr not_found"
    by (simp add: static2)
  have b2: "storage (snd (handleStaticAsset missing post_main_js asset_worker)) =
        storage asset_worker"
    by (simp add: static2) (simp add: missing_def asset_worker_def opened_def)
  have miss': "method members_request \<noteq> ''GET''
      \<or> lookup STATIC_CACHE_NAME (url members_request) (storage fresh_worker) = None"
    by (simp add: fresh_worker_def lookup_def)
  have answer': "network missing members_request = Inr not_found"
    by (simp add: missing_def)
  note refresh = only_ok_responses_are_cached [OF miss' answer' bad, THEN conjunct2,
      of API_CACHE_NAME warm_worker "[]"]
  have c: "updateCacheInBackground_finish missing members_request API_CACHE_NAME warm_worker =
        warm_worker"
    by (rule refresh [THEN conjunct1])
  have d: "lookup API_CACHE_NAME ''/api/members''
          (storage (run_detached missing
             (warm_worker\<lparr>detached := [(members_request, API_CACHE_NAME)]\<rparr>))) =
        Some stale_members"
    by (simp add: refresh [THEN conjunct2]) (simp add: warm_worker_def lookup_def)
  have absent: "lookup STATIC_CACHE_NAME (url main_js_request) (storage fresh_worker) = None"
    by (simp add: fresh_worker_def lookup_def)
  have other: "method post_main_js \<noteq> ''GET''"
    by (simp add: post_main_js_def)
  from absent answer bad a b other a2 b2 c d show ?thesis
    by (intro conjI)
qed

end
